theory Spec2Isabelle
  imports Main
begin

section \<open>Recommendation handlers of the Semantic Scholar tool server\<close>

text \<open>
  The two tool handlers of \<^verbatim>\<open>semantic_scholar/api/recommendations.py\<close>,
  \<^verbatim>\<open>get_paper_recommendations_single\<close> and
  \<^verbatim>\<open>get_paper_recommendations_multi\<close>, are embedded as functions from the
  handler's arguments and the state of the outside world to the handler's outcome and the
  list of effects it performed, in the order it performed them.
\<close>

subsection \<open>Values\<close>

text \<open>
  Python values as they occur in the handlers' dictionaries: \<^verbatim>\<open>None\<close>, booleans,
  integers, strings, lists and dictionaries. A dictionary is an association list in
  insertion order; the handlers never insert a key twice.
\<close>

datatype pyval =
    PNone
  | PBool bool
  | PInt int
  | PStr string
  | PList "pyval list"
  | PDict "(string \<times> pyval) list"

type_synonym pydict = "(string \<times> pyval) list"

text \<open>
  The decimal rendering of an integer, as an f-string renders
  \<^verbatim>\<open>{e.response.status_code}\<close> and \<^verbatim>\<open>{Config.TIMEOUT}\<close>.
\<close>

definition digit_char :: "nat \<Rightarrow> char" where
  "digit_char d =
     (if d = 0 then CHR ''0'' else if d = 1 then CHR ''1'' else if d = 2 then CHR ''2''
      else if d = 3 then CHR ''3'' else if d = 4 then CHR ''4'' else if d = 5 then CHR ''5''
      else if d = 6 then CHR ''6'' else if d = 7 then CHR ''7'' else if d = 8 then CHR ''8''
      else CHR ''9'')"

fun str_nat :: "nat \<Rightarrow> string" where
  "str_nat n =
     (if n < 10 then [digit_char n] else str_nat (n div 10) @ [digit_char (n mod 10)])"

declare str_nat.simps [simp del]

definition str_int :: "int \<Rightarrow> string" where
  "str_int i = (if i < 0 then CHR ''-'' # str_nat (nat (- i)) else str_nat (nat i))"

subsection \<open>The error envelope\<close>

text \<open>
  Modelled from the spec: \<^verbatim>\<open>ErrorType\<close> of \<^verbatim>\<open>semantic_scholar/config.py\<close>
  is not among the sources. The spec gives the envelope's kind as the enumeration
  VALIDATION, RATE_LIMIT, API_ERROR, TIMEOUT, NOT_FOUND.
\<close>

datatype ErrorType = VALIDATION | RATE_LIMIT | API_ERROR | TIMEOUT | NOT_FOUND

record error_response =
  kind :: ErrorType
  message :: string
  details :: pydict

text \<open>
  Modelled from the spec: \<^verbatim>\<open>create_error_response\<close> of
  \<^verbatim>\<open>semantic_scholar/utils/errors.py\<close> is not among the sources. The spec
  describes the envelope as a kind, a message and a mapping of details, built once per
  failure from what the handler supplies. The third argument is optional at the call
  sites; a call that leaves it out gives the mapping without entries.
\<close>

definition create_error_response :: "ErrorType \<Rightarrow> string \<Rightarrow> pydict option \<Rightarrow> error_response" where
  "create_error_response error_type msg dets =
     \<lparr>kind = error_type, message = msg,
      details = (case dets of None \<Rightarrow> [] | Some d \<Rightarrow> d)\<rparr>"

text \<open>
  A handler returns a dictionary: the error envelope, or the parsed body of the upstream
  response.
\<close>

datatype tool_result = Failure error_response | Success pyval

subsection \<open>The outside world\<close>

text \<open>
  An upstream response as the handlers read it: the status code, the headers (one entry
  per header name, names in lower case, as the HTTP library looks them up), the body text,
  and what \<^verbatim>\<open>response.json()\<close> gives: the parsed body, or the rendering of the
  exception raised when the body is not JSON.
\<close>

record response =
  status_code :: int
  resp_headers :: "(string \<times> string) list"
  resp_text :: string
  resp_json :: "string + pyval"

definition headers_get :: "(string \<times> string) list \<Rightarrow> string \<Rightarrow> string option" where
  "headers_get hs name = map_of hs name"

text \<open>
  What happens to the one request a handler issues, while the handler awaits it: a
  response arrives, the request exceeds the client's timeout
  (\<^verbatim>\<open>httpx.TimeoutException\<close>), it fails in some other way, with the given
  rendering \<^verbatim>\<open>str(e)\<close> of the exception, or the invocation's task is cancelled:
  \<^verbatim>\<open>shutdown\<close> of \<^verbatim>\<open>server.py\<close> calls \<^verbatim>\<open>task.cancel()\<close> on
  every other task and awaits it under \<^verbatim>\<open>except asyncio.CancelledError\<close>.
\<close>

datatype outcome = Responded response | TimedOut | Failed string | Cancelled

text \<open>
  The exceptions that the body of a handler can raise, told apart as the
  \<^verbatim>\<open>except\<close> clauses tell them apart. The first three are of class
  \<^verbatim>\<open>Exception\<close>; \<^verbatim>\<open>asyncio.CancelledError\<close> is of class
  \<^verbatim>\<open>BaseException\<close> only.
\<close>

datatype exc =
    HTTPStatusError response
  | TimeoutException
  | OtherException string
  | CancelledError

text \<open>
  \<^verbatim>\<open>response.raise_for_status()\<close> of the HTTP library raises
  \<^verbatim>\<open>HTTPStatusError\<close>, carrying the response, unless the status is a success
  status (200 to 299).
\<close>

definition raise_for_status :: "response \<Rightarrow> exc + unit" where
  "raise_for_status r =
     (if 200 \<le> status_code r \<and> status_code r \<le> 299 then Inr () else Inl (HTTPStatusError r))"

text \<open>
  The state of the world during one invocation. \<^verbatim>\<open>Config\<close> of
  \<^verbatim>\<open>semantic_scholar/config.py\<close> is not among the sources: its constant
  \<^verbatim>\<open>TIMEOUT\<close>, a number of seconds, is a parameter here, as is the configured
  API key.
\<close>

record world =
  Config_TIMEOUT :: int
  configured_api_key :: "string option"
  upstream :: outcome

text \<open>
  Modelled from the spec: \<^verbatim>\<open>get_api_key\<close> of
  \<^verbatim>\<open>semantic_scholar/utils/http.py\<close> is not among the sources. The spec
  describes the credential resolver as a stateless, pure lookup of an optional API key in
  the process-wide configuration.
\<close>

definition get_api_key :: "world \<Rightarrow> string option" where
  "get_api_key w = configured_api_key w"

subsection \<open>Effects\<close>

text \<open>
  An outbound request, and the client it is issued through: the process-wide client that
  \<^verbatim>\<open>initialize_client()\<close> creates when \<^verbatim>\<open>run_server\<close> of
  \<^verbatim>\<open>server.py\<close> starts, or a client that the invocation constructs itself with
  \<^verbatim>\<open>httpx.AsyncClient(timeout=...)\<close>, given with its timeout.
\<close>

datatype http_method = GET | POST

record request =
  http_method :: http_method
  url :: string
  params :: pydict
  req_headers :: "(string \<times> string) list"
  json_body :: "pydict option"

datatype client = Shared_Client | Local_Client int

text \<open>
  Modelled from the spec: \<^verbatim>\<open>rate_limiter\<close> of
  \<^verbatim>\<open>semantic_scholar/utils/http.py\<close> is not among the sources. The spec says
  of \<^verbatim>\<open>acquire(endpoint_id)\<close> that it does not fail, that it only delays, and
  that it returns no value; so \<open>Acquire\<close> is an effect after which the handler goes on.
  The other effects of an invocation are the construction of an HTTP client with a
  timeout, a request sent through a client, the closing of the constructed client, and a
  line written to the error log.
\<close>

datatype event =
    Acquire string
  | ClientCreated int
  | Sent client request
  | ClientClosed
  | LogError string

fun is_network :: "event \<Rightarrow> bool" where
  "is_network (ClientCreated _) = True"
| "is_network (Sent _ _) = True"
| "is_network ClientClosed = True"
| "is_network _ = False"

subsection \<open>The handlers\<close>

text \<open>
  \<^verbatim>\<open>headers = {"x-api-key": api_key} if api_key else {}\<close>: the key is attached
  when it is neither \<^verbatim>\<open>None\<close> nor the empty string.
\<close>

definition api_key_headers :: "string option \<Rightarrow> (string \<times> string) list" where
  "api_key_headers api_key =
     (case api_key of
        None \<Rightarrow> []
      | Some k \<Rightarrow> if k \<noteq> [] then [(''x-api-key'', k)] else [])"

text \<open>
  \<^verbatim>\<open>if fields: params["fields"] = fields\<close>
\<close>

definition fields_param :: "string option \<Rightarrow> pydict" where
  "fields_param flds =
     (case flds of
        None \<Rightarrow> []
      | Some f \<Rightarrow> if f \<noteq> [] then [(''fields'', PStr f)] else [])"

text \<open>
  The request that \<^verbatim>\<open>get_paper_recommendations_single\<close> builds:
  \<^verbatim>\<open>client.get(url, params=params, headers=headers)\<close>.
\<close>

definition single_request :: "world \<Rightarrow> string \<Rightarrow> string option \<Rightarrow> int \<Rightarrow> string \<Rightarrow> request" where
  "single_request w paper_id flds limit from_pool =
     \<lparr>http_method = GET,
      url = ''https://api.semanticscholar.org/recommendations/v1/papers/forpaper/'' @ paper_id,
      params = [(''limit'', PInt limit), (''from'', PStr from_pool)] @ fields_param flds,
      req_headers = api_key_headers (get_api_key w),
      json_body = None\<rparr>"

text \<open>
  The request that \<^verbatim>\<open>get_paper_recommendations_multi\<close> builds:
  \<^verbatim>\<open>client.post(url, params=params, json=request_body, headers=headers)\<close>,
  where \<^verbatim>\<open>negative_paper_ids or []\<close> is the empty list for \<^verbatim>\<open>None\<close> and
  for the empty list.
\<close>

definition request_body :: "string list \<Rightarrow> string list option \<Rightarrow> pydict" where
  "request_body positive_paper_ids negative_paper_ids =
     [(''positivePaperIds'', PList (map PStr positive_paper_ids)),
      (''negativePaperIds'',
         PList (map PStr (case negative_paper_ids of None \<Rightarrow> [] | Some ns \<Rightarrow> ns)))]"

definition multi_request :: "world \<Rightarrow> string list \<Rightarrow> string list option \<Rightarrow> string option \<Rightarrow> int \<Rightarrow> request" where
  "multi_request w positive_paper_ids negative_paper_ids flds limit =
     \<lparr>http_method = POST,
      url = ''https://api.semanticscholar.org/recommendations/v1/papers'',
      params = [(''limit'', PInt limit)] @ fields_param flds,
      req_headers = api_key_headers (get_api_key w),
      json_body = Some (request_body positive_paper_ids negative_paper_ids)\<rparr>"

text \<open>
  An optional list of identifiers as a value: \<^verbatim>\<open>None\<close> stays \<^verbatim>\<open>None\<close>.
\<close>

definition ids_value :: "string list option \<Rightarrow> pyval" where
  "ids_value ids = (case ids of None \<Rightarrow> PNone | Some xs \<Rightarrow> PList (map PStr xs))"

text \<open>
  The body of the \<^verbatim>\<open>try\<close> block of \<^verbatim>\<open>get_paper_recommendations_single\<close>:
  the value it returns or the exception it raises, and its effects. The client is
  constructed by \<^verbatim>\<open>async with httpx.AsyncClient(timeout=Config.TIMEOUT)\<close> and
  closed when the block is left, by a return or by an exception.
\<close>

definition single_try ::
  "world \<Rightarrow> string \<Rightarrow> string option \<Rightarrow> int \<Rightarrow> string \<Rightarrow> (exc + tool_result) \<times> event list" where
  "single_try w paper_id flds limit from_pool =
     (let endpoint = ''/recommendations'';
          tr = [Acquire endpoint]
      in
      if limit > 500 then
        (Inr (Failure (create_error_response VALIDATION
                ''Cannot request more than 500 recommendations''
                (Some [(''max_limit'', PInt 500), (''requested'', PInt limit)]))), tr)
      else if from_pool \<notin> set [''recent'', ''all-cs''] then
        (Inr (Failure (create_error_response VALIDATION
                ''Invalid paper pool specified''
                (Some [(''valid_pools'', PList [PStr ''recent'', PStr ''all-cs''])]))), tr)
      else
        let req = single_request w paper_id flds limit from_pool;
            tr = tr @ [ClientCreated (Config_TIMEOUT w),
                       Sent (Local_Client (Config_TIMEOUT w)) req,
                       ClientClosed]
        in
        case upstream w of
          TimedOut \<Rightarrow> (Inl TimeoutException, tr)
        | Failed s \<Rightarrow> (Inl (OtherException s), tr)
        | Cancelled \<Rightarrow> (Inl CancelledError, tr)
        | Responded r \<Rightarrow>
            if status_code r = 404 then
              (Inr (Failure (create_error_response VALIDATION
                      ''Paper not found''
                      (Some [(''paper_id'', PStr paper_id)]))), tr)
            else
              (case raise_for_status r of
                 Inl e \<Rightarrow> (Inl e, tr)
               | Inr _ \<Rightarrow>
                   (case resp_json r of
                      Inl s \<Rightarrow> (Inl (OtherException s), tr)
                    | Inr v \<Rightarrow> (Inr (Success v), tr))))"

text \<open>
  The body of the \<^verbatim>\<open>try\<close> block of \<^verbatim>\<open>get_paper_recommendations_multi\<close>.
  \<^verbatim>\<open>not positive_paper_ids\<close> holds of the empty list; the call for it gives
  \<^verbatim>\<open>create_error_response\<close> no details.
\<close>

definition multi_try ::
  "world \<Rightarrow> string list \<Rightarrow> string list option \<Rightarrow> string option \<Rightarrow> int \<Rightarrow>
     (exc + tool_result) \<times> event list" where
  "multi_try w positive_paper_ids negative_paper_ids flds limit =
     (let endpoint = ''/recommendations'';
          tr = [Acquire endpoint]
      in
      if positive_paper_ids = [] then
        (Inr (Failure (create_error_response VALIDATION
                ''Must provide at least one positive paper ID'' None)), tr)
      else if limit > 500 then
        (Inr (Failure (create_error_response VALIDATION
                ''Cannot request more than 500 recommendations''
                (Some [(''max_limit'', PInt 500), (''requested'', PInt limit)]))), tr)
      else
        let req = multi_request w positive_paper_ids negative_paper_ids flds limit;
            tr = tr @ [ClientCreated (Config_TIMEOUT w),
                       Sent (Local_Client (Config_TIMEOUT w)) req,
                       ClientClosed]
        in
        case upstream w of
          TimedOut \<Rightarrow> (Inl TimeoutException, tr)
        | Failed s \<Rightarrow> (Inl (OtherException s), tr)
        | Cancelled \<Rightarrow> (Inl CancelledError, tr)
        | Responded r \<Rightarrow>
            if status_code r = 404 then
              (Inr (Failure (create_error_response VALIDATION
                      ''One or more input papers not found''
                      (Some [(''positive_ids'', PList (map PStr positive_paper_ids)),
                             (''negative_ids'', ids_value negative_paper_ids)]))), tr)
            else
              (case raise_for_status r of
                 Inl e \<Rightarrow> (Inl e, tr)
               | Inr _ \<Rightarrow>
                   (case resp_json r of
                      Inl s \<Rightarrow> (Inl (OtherException s), tr)
                    | Inr v \<Rightarrow> (Inr (Success v), tr))))"

text \<open>
  The three \<^verbatim>\<open>except\<close> clauses, which are the same text in both handlers, in
  their order: \<^verbatim>\<open>httpx.HTTPStatusError\<close>, \<^verbatim>\<open>httpx.TimeoutException\<close>,
  \<^verbatim>\<open>Exception\<close>. An exception that no clause catches leaves the handler, as
  \<open>Inl\<close>: \<^verbatim>\<open>except Exception\<close> does not match
  \<^verbatim>\<open>asyncio.CancelledError\<close>.
\<close>

definition except_clauses :: "world \<Rightarrow> exc \<Rightarrow> event list \<Rightarrow> (exc + tool_result) \<times> event list" where
  "except_clauses w e tr =
     (case e of
        HTTPStatusError r \<Rightarrow>
          if status_code r = 429 then
            (Inr (Failure (create_error_response RATE_LIMIT
                    ''Rate limit exceeded. Consider using an API key for higher limits.''
                    (Some [(''retry_after'',
                              (case headers_get (resp_headers r) ''retry-after'' of
                                 None \<Rightarrow> PNone
                               | Some v \<Rightarrow> PStr v)),
                           (''authenticated'',
                              PBool (case get_api_key w of
                                       None \<Rightarrow> False
                                     | Some k \<Rightarrow> k \<noteq> []))]))), tr)
          else
            (Inr (Failure (create_error_response API_ERROR
                    (''HTTP error '' @ str_int (status_code r))
                    (Some [(''response'', PStr (resp_text r))]))), tr)
      | TimeoutException \<Rightarrow>
          (Inr (Failure (create_error_response TIMEOUT
                  (''Request timed out after '' @ str_int (Config_TIMEOUT w) @ '' seconds'')
                  None)), tr)
      | OtherException s \<Rightarrow>
          (Inr (Failure (create_error_response API_ERROR
                  ''Failed to get recommendations''
                  (Some [(''error'', PStr s)]))),
           tr @ [LogError (''Unexpected error in recommendations: '' @ s)])
      | CancelledError \<Rightarrow> (Inl CancelledError, tr))"

definition get_paper_recommendations_single ::
  "world \<Rightarrow> string \<Rightarrow> string option \<Rightarrow> int \<Rightarrow> string \<Rightarrow> (exc + tool_result) \<times> event list" where
  "get_paper_recommendations_single w paper_id flds limit from_pool =
     (case single_try w paper_id flds limit from_pool of
        (Inr v, tr) \<Rightarrow> (Inr v, tr)
      | (Inl e, tr) \<Rightarrow> except_clauses w e tr)"

definition get_paper_recommendations_multi ::
  "world \<Rightarrow> string list \<Rightarrow> string list option \<Rightarrow> string option \<Rightarrow> int \<Rightarrow>
     (exc + tool_result) \<times> event list" where
  "get_paper_recommendations_multi w positive_paper_ids negative_paper_ids flds limit =
     (case multi_try w positive_paper_ids negative_paper_ids flds limit of
        (Inr v, tr) \<Rightarrow> (Inr v, tr)
      | (Inl e, tr) \<Rightarrow> except_clauses w e tr)"

subsection \<open>Reading an outcome\<close>

text \<open>
  The envelope an invocation returned, if it returned one, and the requests it sent.
\<close>

fun returned_envelope :: "(exc + tool_result) \<times> event list \<Rightarrow> error_response option" where
  "returned_envelope (Inr (Failure e), tr) = Some e"
| "returned_envelope (Inr (Success v), tr) = None"
| "returned_envelope (Inl x, tr) = None"

fun sent_requests :: "event list \<Rightarrow> request list" where
  "sent_requests [] = []"
| "sent_requests (Sent c r # evs) = r # sent_requests evs"
| "sent_requests (Acquire e # evs) = sent_requests evs"
| "sent_requests (ClientCreated t # evs) = sent_requests evs"
| "sent_requests (ClientClosed # evs) = sent_requests evs"
| "sent_requests (LogError m # evs) = sent_requests evs"

subsection \<open>Concrete worlds\<close>

text \<open>
  Worlds for evaluating the handlers: a timeout of 30 seconds; upstream answers 200 with
  an empty JSON object, 404, 429 with the header \<^verbatim>\<open>retry-after: 30\<close> (to a
  request carrying an API key), 500, 200 with a body that is not JSON, or not at all:
  the request times out, the connection fails, or the invocation is cancelled while it
  awaits the response.
\<close>

definition response_200 :: response where
  "response_200 =
     \<lparr>status_code = 200, resp_headers = [], resp_text = ''{}'', resp_json = Inr (PDict [])\<rparr>"

definition response_404 :: response where
  "response_404 =
     \<lparr>status_code = 404, resp_headers = [], resp_text = ''Not Found'',
      resp_json = Inl ''Expecting value''\<rparr>"

definition response_429 :: response where
  "response_429 =
     \<lparr>status_code = 429, resp_headers = [(''retry-after'', ''30'')],
      resp_text = ''Too Many Requests'', resp_json = Inl ''Expecting value''\<rparr>"

definition response_500 :: response where
  "response_500 =
     \<lparr>status_code = 500, resp_headers = [], resp_text = ''Internal Server Error'',
      resp_json = Inl ''Expecting value''\<rparr>"

definition world_200 :: world where
  "world_200 =
     \<lparr>Config_TIMEOUT = 30, configured_api_key = None, upstream = Responded response_200\<rparr>"

definition world_404 :: world where
  "world_404 =
     \<lparr>Config_TIMEOUT = 30, configured_api_key = None, upstream = Responded response_404\<rparr>"

definition world_429 :: world where
  "world_429 =
     \<lparr>Config_TIMEOUT = 30, configured_api_key = Some ''secret'',
      upstream = Responded response_429\<rparr>"

definition world_500 :: world where
  "world_500 =
     \<lparr>Config_TIMEOUT = 30, configured_api_key = None, upstream = Responded response_500\<rparr>"

definition world_timeout :: world where
  "world_timeout =
     \<lparr>Config_TIMEOUT = 30, configured_api_key = None, upstream = TimedOut\<rparr>"

definition world_failed :: world where
  "world_failed =
     \<lparr>Config_TIMEOUT = 30, configured_api_key = None,
      upstream = Failed ''All connection attempts failed''\<rparr>"

definition response_not_json :: response where
  "response_not_json =
     \<lparr>status_code = 200, resp_headers = [], resp_text = ''<html>Service busy</html>'',
      resp_json = Inl ''Expecting value: line 1 column 1 (char 0)''\<rparr>"

definition world_not_json :: world where
  "world_not_json =
     \<lparr>Config_TIMEOUT = 30, configured_api_key = None,
      upstream = Responded response_not_json\<rparr>"

definition world_cancelled :: world where
  "world_cancelled =
     \<lparr>Config_TIMEOUT = 30, configured_api_key = None, upstream = Cancelled\<rparr>"

section \<open>Properties of the handlers\<close>

lemmas handler_defs =
  get_paper_recommendations_single_def get_paper_recommendations_multi_def
  single_try_def multi_try_def except_clauses_def create_error_response_def
  raise_for_status_def Let_def

lemmas world_defs =
  world_200_def world_404_def world_429_def world_500_def world_timeout_def
  world_failed_def world_not_json_def world_cancelled_def
  response_200_def response_404_def response_429_def response_500_def response_not_json_def

lemmas request_defs =
  single_request_def multi_request_def request_body_def fields_param_def
  api_key_headers_def get_api_key_def ids_value_def headers_get_def

lemmas str_defs = str_int_def str_nat.simps digit_char_def

subsection \<open>The HTTP client\<close>

text \<open>
  C1, as stated, fails: the request of an invocation is not issued through the shared
  client. At a paper identifier \<open>p1\<close> with the default arguments, and at one positive
  identifier, the invocation constructs a client of its own.
\<close>

theorem shared_client_counterexample:
  "ClientCreated 30 \<in>
     set (snd (get_paper_recommendations_single world_200 ''p1'' None 100 ''recent'')) \<and>
   Sent Shared_Client (single_request world_200 ''p1'' None 100 ''recent'') \<notin>
     set (snd (get_paper_recommendations_single world_200 ''p1'' None 100 ''recent'')) \<and>
   ClientCreated 30 \<in>
     set (snd (get_paper_recommendations_multi world_200 [''p1''] None None 100)) \<and>
   Sent Shared_Client (multi_request world_200 [''p1''] None None 100) \<notin>
     set (snd (get_paper_recommendations_multi world_200 [''p1''] None None 100))"
  by (simp add: handler_defs world_defs)

text \<open>
  C1, amended: an invocation whose arguments pass the local validation constructs one
  HTTP client of its own with the configured timeout, sends its one request through that
  client and closes it; no invocation sends a request through the shared client.
\<close>

theorem per_call_client:
  "(limit \<le> 500 \<and> from_pool \<in> set [''recent'', ''all-cs''] \<longrightarrow>
      filter is_network (snd (get_paper_recommendations_single w paper_id flds limit from_pool)) =
        [ClientCreated (Config_TIMEOUT w),
         Sent (Local_Client (Config_TIMEOUT w)) (single_request w paper_id flds limit from_pool),
         ClientClosed]) \<and>
   (positive_paper_ids \<noteq> [] \<and> limit \<le> 500 \<longrightarrow>
      filter is_network
        (snd (get_paper_recommendations_multi w positive_paper_ids negative_paper_ids flds limit)) =
        [ClientCreated (Config_TIMEOUT w),
         Sent (Local_Client (Config_TIMEOUT w))
           (multi_request w positive_paper_ids negative_paper_ids flds limit),
         ClientClosed]) \<and>
   Sent Shared_Client req \<notin>
     set (snd (get_paper_recommendations_single w paper_id flds limit from_pool)) \<and>
   Sent Shared_Client req \<notin>
     set (snd (get_paper_recommendations_multi w positive_paper_ids negative_paper_ids flds limit))"
  by (auto simp: handler_defs split: outcome.splits sum.splits exc.splits)

theorem per_call_client_witness:
  "filter is_network (snd (get_paper_recommendations_single world_200 ''p1'' None 100 ''recent'')) =
     [ClientCreated 30,
      Sent (Local_Client 30)
        \<lparr>http_method = GET,
         url = ''https://api.semanticscholar.org/recommendations/v1/papers/forpaper/p1'',
         params = [(''limit'', PInt 100), (''from'', PStr ''recent'')],
         req_headers = [], json_body = None\<rparr>,
      ClientClosed] \<and>
   filter is_network (snd (get_paper_recommendations_multi world_200 [''p1''] None None 100)) =
     [ClientCreated 30,
      Sent (Local_Client 30)
        \<lparr>http_method = POST,
         url = ''https://api.semanticscholar.org/recommendations/v1/papers'',
         params = [(''limit'', PInt 100)],
         req_headers = [],
         json_body = Some [(''positivePaperIds'', PList [PStr ''p1'']),
                           (''negativePaperIds'', PList [])]\<rparr>,
      ClientClosed]"
  using per_call_client [where limit = 100 and from_pool = "''recent''" and w = world_200
      and paper_id = "''p1''" and flds = None and positive_paper_ids = "[''p1'']"
      and negative_paper_ids = None]
  by (simp add: world_defs request_defs)

subsection \<open>Validation and the rate limiter\<close>

text \<open>
  C2, as stated, fails: with a limit of 501 the VALIDATION envelope is returned, and
  \<open>rate_limiter.acquire\<close> has been called for the endpoint before.
\<close>

theorem validation_first_counterexample:
  "get_paper_recommendations_single world_200 ''p1'' None 501 ''recent'' =
     (Inr (Failure \<lparr>kind = VALIDATION,
                    message = ''Cannot request more than 500 recommendations'',
                    details = [(''max_limit'', PInt 500), (''requested'', PInt 501)]\<rparr>),
      [Acquire ''/recommendations''])"
  by (simp add: handler_defs)

text \<open>
  C2, amended: every invocation first calls \<open>rate_limiter.acquire\<close> for the endpoint
  \<open>/recommendations\<close>; the local validation comes next, and on a violation (limit above
  500, invalid pool, empty list of positive identifiers) the VALIDATION envelope is
  returned with no effect other than that call.
\<close>

theorem acquire_then_validate:
  "take 1 (snd (get_paper_recommendations_single w paper_id flds limit from_pool)) =
     [Acquire ''/recommendations''] \<and>
   take 1 (snd (get_paper_recommendations_multi w positive_paper_ids negative_paper_ids flds limit)) =
     [Acquire ''/recommendations''] \<and>
   (limit > 500 \<or> from_pool \<notin> set [''recent'', ''all-cs''] \<longrightarrow>
      map_option kind
        (returned_envelope (get_paper_recommendations_single w paper_id flds limit from_pool)) =
        Some VALIDATION \<and>
      snd (get_paper_recommendations_single w paper_id flds limit from_pool) =
        [Acquire ''/recommendations'']) \<and>
   (positive_paper_ids = [] \<or> limit > 500 \<longrightarrow>
      map_option kind
        (returned_envelope
           (get_paper_recommendations_multi w positive_paper_ids negative_paper_ids flds limit)) =
        Some VALIDATION \<and>
      snd (get_paper_recommendations_multi w positive_paper_ids negative_paper_ids flds limit) =
        [Acquire ''/recommendations''])"
  by (auto simp: handler_defs split: outcome.splits sum.splits exc.splits)

theorem acquire_then_validate_witness:
  "take 1 (snd (get_paper_recommendations_single world_200 ''p1'' None 501 ''bogus'')) =
     [Acquire ''/recommendations''] \<and>
   take 1 (snd (get_paper_recommendations_multi world_200 [] None None 501)) =
     [Acquire ''/recommendations''] \<and>
   map_option kind
     (returned_envelope (get_paper_recommendations_single world_200 ''p1'' None 501 ''bogus'')) =
     Some VALIDATION \<and>
   snd (get_paper_recommendations_single world_200 ''p1'' None 501 ''bogus'') =
     [Acquire ''/recommendations''] \<and>
   map_option kind
     (returned_envelope (get_paper_recommendations_multi world_200 [] None None 501)) =
     Some VALIDATION \<and>
   snd (get_paper_recommendations_multi world_200 [] None None 501) =
     [Acquire ''/recommendations'']"
  using acquire_then_validate [where limit = 501 and from_pool = "''bogus''" and w = world_200
      and paper_id = "''p1''" and flds = None and positive_paper_ids = "[]"
      and negative_paper_ids = None]
  by simp

subsection \<open>Failures of a handler\<close>




subsection \<open>Local validation\<close>

text \<open>
  C4, as stated, fails for the multi operation: with an empty list of positive
  identifiers and a limit of 501, the envelope is the one for the empty list, which has
  no details.
\<close>

theorem limit_details_counterexample:
  "map_option details
     (returned_envelope (get_paper_recommendations_multi world_200 [] None None 501)) \<noteq>
     Some [(''max_limit'', PInt 500), (''requested'', PInt 501)]"
  by (simp add: handler_defs)

text \<open>
  C4, amended: for every call with a limit greater than 500, the result is a VALIDATION
  envelope and no network call is issued; the details are
  \<open>{max_limit: 500, requested: limit}\<close> for the single operation, and for the multi
  operation when the list of positive identifiers is not empty.
\<close>

theorem limit_above_ceiling:
  assumes "limit > 500"
  shows
    "get_paper_recommendations_single w paper_id flds limit from_pool =
       (Inr (Failure \<lparr>kind = VALIDATION,
                      message = ''Cannot request more than 500 recommendations'',
                      details = [(''max_limit'', PInt 500), (''requested'', PInt limit)]\<rparr>),
        [Acquire ''/recommendations'']) \<and>
     map_option kind
       (returned_envelope
          (get_paper_recommendations_multi w positive_paper_ids negative_paper_ids flds limit)) =
       Some VALIDATION \<and>
     filter is_network
       (snd (get_paper_recommendations_multi w positive_paper_ids negative_paper_ids flds limit)) =
       [] \<and>
     (positive_paper_ids \<noteq> [] \<longrightarrow>
        get_paper_recommendations_multi w positive_paper_ids negative_paper_ids flds limit =
          (Inr (Failure \<lparr>kind = VALIDATION,
                         message = ''Cannot request more than 500 recommendations'',
                         details = [(''max_limit'', PInt 500), (''requested'', PInt limit)]\<rparr>),
           [Acquire ''/recommendations'']))"
  using assms by (simp add: handler_defs)

theorem limit_above_ceiling_witness:
  "get_paper_recommendations_single world_200 ''p1'' None 501 ''recent'' =
     (Inr (Failure \<lparr>kind = VALIDATION,
                    message = ''Cannot request more than 500 recommendations'',
                    details = [(''max_limit'', PInt 500), (''requested'', PInt 501)]\<rparr>),
      [Acquire ''/recommendations'']) \<and>
   get_paper_recommendations_multi world_200 [''p1''] None None 501 =
     (Inr (Failure \<lparr>kind = VALIDATION,
                    message = ''Cannot request more than 500 recommendations'',
                    details = [(''max_limit'', PInt 500), (''requested'', PInt 501)]\<rparr>),
      [Acquire ''/recommendations''])"
  using limit_above_ceiling [where limit = 501 and w = world_200 and paper_id = "''p1''"
      and flds = None and from_pool = "''recent''" and positive_paper_ids = "[''p1'']"
      and negative_paper_ids = None]
  by simp

text \<open>
  C5, as stated, fails: the envelope for an empty list of positive identifiers has no
  details, and the envelope for the pool \<open>bogus\<close> lists the valid pools and does not
  hold the offending value.
\<close>

theorem violation_details_counterexample:
  "map_option details
     (returned_envelope (get_paper_recommendations_multi world_200 [] None None 100)) =
     Some [] \<and>
   map_option details
     (returned_envelope (get_paper_recommendations_single world_200 ''p1'' None 100 ''bogus'')) =
     Some [(''valid_pools'', PList [PStr ''recent'', PStr ''all-cs''])]"
  by (simp add: handler_defs)

text \<open>
  C5, amended: for an empty list of positive identifiers in the multi operation, and for
  a pool other than \<open>recent\<close> and \<open>all-cs\<close> in the single operation, the handler returns a
  VALIDATION envelope and issues no network call. The envelope for the empty list has no
  details; the envelope for the pool, returned when the limit is at most 500, has the
  details \<open>{valid_pools: [recent, all-cs]}\<close>.
\<close>

theorem precondition_violation:
  "get_paper_recommendations_multi w [] negative_paper_ids flds limit =
     (Inr (Failure \<lparr>kind = VALIDATION,
                    message = ''Must provide at least one positive paper ID'',
                    details = []\<rparr>),
      [Acquire ''/recommendations'']) \<and>
   (from_pool \<notin> set [''recent'', ''all-cs''] \<longrightarrow>
      map_option kind
        (returned_envelope (get_paper_recommendations_single w paper_id flds limit from_pool)) =
        Some VALIDATION \<and>
      filter is_network
        (snd (get_paper_recommendations_single w paper_id flds limit from_pool)) = []) \<and>
   (from_pool \<notin> set [''recent'', ''all-cs''] \<and> limit \<le> 500 \<longrightarrow>
      get_paper_recommendations_single w paper_id flds limit from_pool =
        (Inr (Failure \<lparr>kind = VALIDATION,
                       message = ''Invalid paper pool specified'',
                       details = [(''valid_pools'', PList [PStr ''recent'', PStr ''all-cs''])]\<rparr>),
         [Acquire ''/recommendations'']))"
  by (simp add: handler_defs)

theorem precondition_violation_witness:
  "get_paper_recommendations_multi world_200 [] (Some [''n1'']) None 100 =
     (Inr (Failure \<lparr>kind = VALIDATION,
                    message = ''Must provide at least one positive paper ID'',
                    details = []\<rparr>),
      [Acquire ''/recommendations'']) \<and>
   get_paper_recommendations_single world_200 ''p1'' None 100 ''bogus'' =
     (Inr (Failure \<lparr>kind = VALIDATION,
                    message = ''Invalid paper pool specified'',
                    details = [(''valid_pools'', PList [PStr ''recent'', PStr ''all-cs''])]\<rparr>),
      [Acquire ''/recommendations''])"
  using precondition_violation [where w = world_200 and negative_paper_ids = "Some [''n1'']"
      and flds = None and limit = 100 and from_pool = "''bogus''" and paper_id = "''p1''"]
  by simp

subsection \<open>Classification of upstream responses\<close>

text \<open>
  C6: when the upstream response has status 404, the handler returns a VALIDATION
  envelope (so not an API_ERROR one) whose details echo the caller's identifying
  arguments: \<open>paper_id\<close> in the single operation, the lists of positive and negative
  identifiers in the multi operation.
\<close>

theorem not_found_is_validation:
  assumes "upstream w = Responded r" and "status_code r = 404" and "limit \<le> 500"
  shows
    "(from_pool \<in> set [''recent'', ''all-cs''] \<longrightarrow>
        fst (get_paper_recommendations_single w paper_id flds limit from_pool) =
          Inr (Failure \<lparr>kind = VALIDATION, message = ''Paper not found'',
                        details = [(''paper_id'', PStr paper_id)]\<rparr>)) \<and>
     (positive_paper_ids \<noteq> [] \<longrightarrow>
        fst (get_paper_recommendations_multi w positive_paper_ids negative_paper_ids flds limit) =
          Inr (Failure \<lparr>kind = VALIDATION,
                        message = ''One or more input papers not found'',
                        details = [(''positive_ids'', PList (map PStr positive_paper_ids)),
                                   (''negative_ids'', ids_value negative_paper_ids)]\<rparr>))"
  using assms by (simp add: handler_defs)

theorem not_found_is_validation_witness:
  "fst (get_paper_recommendations_single world_404 ''p1'' None 100 ''recent'') =
     Inr (Failure \<lparr>kind = VALIDATION, message = ''Paper not found'',
                   details = [(''paper_id'', PStr ''p1'')]\<rparr>) \<and>
   fst (get_paper_recommendations_multi world_404 [''p1'', ''p2''] (Some [''n1'']) None 100) =
     Inr (Failure \<lparr>kind = VALIDATION,
                   message = ''One or more input papers not found'',
                   details = [(''positive_ids'', PList [PStr ''p1'', PStr ''p2'']),
                              (''negative_ids'', PList [PStr ''n1''])]\<rparr>)"
  using not_found_is_validation [where w = world_404 and r = response_404 and limit = 100
      and from_pool = "''recent''" and paper_id = "''p1''" and flds = None
      and positive_paper_ids = "[''p1'', ''p2'']" and negative_paper_ids = "Some [''n1'']"]
  by (simp add: world_defs ids_value_def)

text \<open>
  C7: when the upstream response has status 429, the handler returns a RATE_LIMIT
  envelope whose details hold, under \<open>retry_after\<close>, the value of the response's
  \<open>retry-after\<close> header (\<open>None\<close> when the response has none) and, under
  \<open>authenticated\<close>, whether the request that was sent carried the \<open>x-api-key\<close> header.
\<close>

theorem too_many_requests_is_rate_limit:
  assumes "upstream w = Responded r" and "status_code r = 429" and "limit \<le> 500"
  shows
    "(from_pool \<in> set [''recent'', ''all-cs''] \<longrightarrow>
        fst (get_paper_recommendations_single w paper_id flds limit from_pool) =
          Inr (Failure
            \<lparr>kind = RATE_LIMIT,
             message = ''Rate limit exceeded. Consider using an API key for higher limits.'',
             details =
               [(''retry_after'',
                   (case headers_get (resp_headers r) ''retry-after'' of
                      None \<Rightarrow> PNone | Some v \<Rightarrow> PStr v)),
                (''authenticated'',
                   PBool (''x-api-key'' \<in> fst ` set (req_headers
                      (single_request w paper_id flds limit from_pool))))]\<rparr>) \<and>
        sent_requests (snd (get_paper_recommendations_single w paper_id flds limit from_pool)) =
          [single_request w paper_id flds limit from_pool]) \<and>
     (positive_paper_ids \<noteq> [] \<longrightarrow>
        fst (get_paper_recommendations_multi w positive_paper_ids negative_paper_ids flds limit) =
          Inr (Failure
            \<lparr>kind = RATE_LIMIT,
             message = ''Rate limit exceeded. Consider using an API key for higher limits.'',
             details =
               [(''retry_after'',
                   (case headers_get (resp_headers r) ''retry-after'' of
                      None \<Rightarrow> PNone | Some v \<Rightarrow> PStr v)),
                (''authenticated'',
                   PBool (''x-api-key'' \<in> fst ` set (req_headers
                      (multi_request w positive_paper_ids negative_paper_ids flds limit))))]\<rparr>) \<and>
        sent_requests
          (snd (get_paper_recommendations_multi w positive_paper_ids negative_paper_ids flds limit)) =
          [multi_request w positive_paper_ids negative_paper_ids flds limit])"
  using assms
  by (auto simp: handler_defs single_request_def multi_request_def api_key_headers_def
      split: option.splits)

theorem too_many_requests_is_rate_limit_witness:
  "fst (get_paper_recommendations_single world_429 ''p1'' None 100 ''recent'') =
     Inr (Failure
       \<lparr>kind = RATE_LIMIT,
        message = ''Rate limit exceeded. Consider using an API key for higher limits.'',
        details = [(''retry_after'', PStr ''30''), (''authenticated'', PBool True)]\<rparr>) \<and>
   fst (get_paper_recommendations_multi world_429 [''p1''] None None 100) =
     Inr (Failure
       \<lparr>kind = RATE_LIMIT,
        message = ''Rate limit exceeded. Consider using an API key for higher limits.'',
        details = [(''retry_after'', PStr ''30''), (''authenticated'', PBool True)]\<rparr>)"
  using too_many_requests_is_rate_limit [where w = world_429 and r = response_429
      and limit = 100 and from_pool = "''recent''" and paper_id = "''p1''" and flds = None
      and positive_paper_ids = "[''p1'']" and negative_paper_ids = None]
  by (simp add: world_defs request_defs)

text \<open>
  C8, as stated, fails: for an upstream response with status 500 the details of the
  API_ERROR envelope hold the body text only; the status code is in the message.
\<close>

theorem status_in_details_counterexample:
  "fst (get_paper_recommendations_single world_500 ''p1'' None 100 ''recent'') =
     Inr (Failure \<lparr>kind = API_ERROR, message = ''HTTP error 500'',
                   details = [(''response'', PStr ''Internal Server Error'')]\<rparr>)"
  by (simp add: handler_defs world_defs str_defs)

text \<open>
  C8, amended: when the upstream response has a status outside 200 to 299 other than 404
  and 429, the handler returns an API_ERROR envelope whose message is \<open>HTTP error\<close>
  followed by the numeric status code and whose details hold the raw body text under
  \<open>response\<close>.
\<close>

theorem other_status_is_api_error:
  assumes "upstream w = Responded r"
    and "status_code r < 200 \<or> 299 < status_code r"
    and "status_code r \<noteq> 404" and "status_code r \<noteq> 429"
    and "limit \<le> 500"
  shows
    "(from_pool \<in> set [''recent'', ''all-cs''] \<longrightarrow>
        fst (get_paper_recommendations_single w paper_id flds limit from_pool) =
          Inr (Failure \<lparr>kind = API_ERROR,
                        message = ''HTTP error '' @ str_int (status_code r),
                        details = [(''response'', PStr (resp_text r))]\<rparr>)) \<and>
     (positive_paper_ids \<noteq> [] \<longrightarrow>
        fst (get_paper_recommendations_multi w positive_paper_ids negative_paper_ids flds limit) =
          Inr (Failure \<lparr>kind = API_ERROR,
                        message = ''HTTP error '' @ str_int (status_code r),
                        details = [(''response'', PStr (resp_text r))]\<rparr>))"
  using assms by (auto simp: handler_defs)

theorem other_status_is_api_error_witness:
  "fst (get_paper_recommendations_single world_500 ''p1'' None 100 ''all-cs'') =
     Inr (Failure \<lparr>kind = API_ERROR, message = ''HTTP error 500'',
                   details = [(''response'', PStr ''Internal Server Error'')]\<rparr>) \<and>
   fst (get_paper_recommendations_multi world_500 [''p1''] None None 100) =
     Inr (Failure \<lparr>kind = API_ERROR, message = ''HTTP error 500'',
                   details = [(''response'', PStr ''Internal Server Error'')]\<rparr>)"
  using other_status_is_api_error [where w = world_500 and r = response_500
      and limit = 100 and from_pool = "''all-cs''" and paper_id = "''p1''" and flds = None
      and positive_paper_ids = "[''p1'']" and negative_paper_ids = None]
  by (simp add: world_defs str_defs)

subsection \<open>Timeouts\<close>

text \<open>
  C9: when the request exceeds the timeout, the handler returns a TIMEOUT envelope whose
  message holds the configured timeout value; the client that sent the request was
  constructed with that timeout, and the invocation ends with the return of the envelope.
\<close>

theorem timeout_is_reported:
  assumes "upstream w = TimedOut" and "limit \<le> 500"
  shows
    "(from_pool \<in> set [''recent'', ''all-cs''] \<longrightarrow>
        get_paper_recommendations_single w paper_id flds limit from_pool =
          (Inr (Failure \<lparr>kind = TIMEOUT,
                         message = ''Request timed out after '' @ str_int (Config_TIMEOUT w) @
                                   '' seconds'',
                         details = []\<rparr>),
           [Acquire ''/recommendations'', ClientCreated (Config_TIMEOUT w),
            Sent (Local_Client (Config_TIMEOUT w))
              (single_request w paper_id flds limit from_pool),
            ClientClosed])) \<and>
     (positive_paper_ids \<noteq> [] \<longrightarrow>
        get_paper_recommendations_multi w positive_paper_ids negative_paper_ids flds limit =
          (Inr (Failure \<lparr>kind = TIMEOUT,
                         message = ''Request timed out after '' @ str_int (Config_TIMEOUT w) @
                                   '' seconds'',
                         details = []\<rparr>),
           [Acquire ''/recommendations'', ClientCreated (Config_TIMEOUT w),
            Sent (Local_Client (Config_TIMEOUT w))
              (multi_request w positive_paper_ids negative_paper_ids flds limit),
            ClientClosed]))"
  using assms by (simp add: handler_defs)

theorem timeout_is_reported_witness:
  "fst (get_paper_recommendations_single world_timeout ''p1'' None 100 ''recent'') =
     Inr (Failure \<lparr>kind = TIMEOUT, message = ''Request timed out after 30 seconds'',
                   details = []\<rparr>) \<and>
   fst (get_paper_recommendations_multi world_timeout [''p1''] None None 100) =
     Inr (Failure \<lparr>kind = TIMEOUT, message = ''Request timed out after 30 seconds'',
                   details = []\<rparr>)"
  using timeout_is_reported [where w = world_timeout and limit = 100
      and from_pool = "''recent''" and paper_id = "''p1''" and flds = None
      and positive_paper_ids = "[''p1'']" and negative_paper_ids = None]
  by (simp add: world_defs str_defs)

subsection \<open>The request body of the multi operation\<close>

text \<open>
  C10: when \<open>negative_paper_ids\<close> is left out, \<open>None\<close> or empty, the JSON body of the
  request that \<open>get_paper_recommendations_multi\<close> sends holds \<open>positivePaperIds\<close>, the
  supplied list, and \<open>negativePaperIds\<close>, the empty list; and that is the only request
  sent.
\<close>

theorem negative_ids_always_present:
  assumes "negative_paper_ids = None \<or> negative_paper_ids = Some []"
    and "positive_paper_ids \<noteq> []" and "limit \<le> 500"
  shows
    "map json_body
       (sent_requests
          (snd (get_paper_recommendations_multi w positive_paper_ids negative_paper_ids flds limit))) =
       [Some [(''positivePaperIds'', PList (map PStr positive_paper_ids)),
              (''negativePaperIds'', PList [])]]"
  using assms
  by (auto simp: handler_defs multi_request_def request_body_def
      split: outcome.splits sum.splits exc.splits)

theorem negative_ids_always_present_witness:
  "map json_body
     (sent_requests (snd (get_paper_recommendations_multi world_200 [''p1'', ''p2''] None None 100))) =
     [Some [(''positivePaperIds'', PList [PStr ''p1'', PStr ''p2'']),
            (''negativePaperIds'', PList [])]] \<and>
   map json_body
     (sent_requests
        (snd (get_paper_recommendations_multi world_200 [''p1'', ''p2''] (Some []) None 100))) =
     [Some [(''positivePaperIds'', PList [PStr ''p1'', PStr ''p2'']),
            (''negativePaperIds'', PList [])]]"
  using negative_ids_always_present [where w = world_200 and limit = 100 and flds = None
      and positive_paper_ids = "[''p1'', ''p2'']" and negative_paper_ids = None]
    negative_ids_always_present [where w = world_200 and limit = 100 and flds = None
      and positive_paper_ids = "[''p1'', ''p2'']" and negative_paper_ids = "Some []"]
  by simp

end
